theory Spec2Isabelle
  imports Main "HOL-Library.Word"
begin

unbundle bit_operations_syntax

section \<open>The PE image loader interface (ImageLoader.h)\<close>

text \<open>
  The embedding follows \<^verbatim>\<open>include/retdec/pelib/ImageLoader.h\<close>. Values of type
  \<^verbatim>\<open>std::uint32_t\<close> are \<open>32 word\<close>, \<^verbatim>\<open>std::uint64_t\<close> is \<open>64 word\<close>, a byte is
  \<open>8 word\<close>. Values of type \<^verbatim>\<open>size_t\<close> are natural numbers below \<open>2 ^ 64\<close>; where the
  source adds or subtracts them, the wrap-around modulo \<open>2 ^ 64\<close> is written out.
  A pointer argument (\<^verbatim>\<open>const void * data\<close>) is the list of bytes that can be read
  from it. An access outside a buffer or an array is undefined behaviour in C++; the
  model returns the fault \<open>OutOfBounds\<close> there instead of a value.
\<close>

type_synonym byte = "8 word"

datatype fault = OutOfBounds

subsection \<open>Constants of PeLibAux.h\<close>

text \<open>
  Modelled from the spec: \<^verbatim>\<open>PELIB_PAGE_SIZE\<close> and \<^verbatim>\<open>PELIB_PAGE_SIZE_SHIFT\<close> are declared in
  PeLibAux.h, which is not among the sources. The specification fixes the page at 4096
  bytes and the page index of an address at \<^verbatim>\<open>rva >> 12\<close>.
\<close>

definition PELIB_PAGE_SIZE :: nat where
  "PELIB_PAGE_SIZE = 4096"

definition PELIB_PAGE_SIZE_SHIFT :: nat where
  "PELIB_PAGE_SIZE_SHIFT = 12"

subsection \<open>Buffers: \<^verbatim>\<open>std::vector::resize\<close>, \<^verbatim>\<open>memcpy\<close>, \<^verbatim>\<open>memset\<close>\<close>

text \<open>
  \<open>vector_resize\<close> is \<^verbatim>\<open>std::vector<std::uint8_t>::resize\<close>: it keeps the first \<open>n\<close>
  elements and appends zero bytes up to the new size.
  \<open>memcpy dst off src n\<close> is \<^verbatim>\<open>memcpy(dst.data() + off, src, n)\<close> and
  \<open>memset dst off v n\<close> is \<^verbatim>\<open>memset(dst.data() + off, v, n)\<close>; both fault when the
  range leaves the destination buffer, \<open>memcpy\<close> also when it leaves the source.
\<close>

definition vector_resize :: "byte list \<Rightarrow> nat \<Rightarrow> byte list" where
  "vector_resize xs n = take n xs @ replicate (n - length xs) 0"

definition memcpy :: "byte list \<Rightarrow> nat \<Rightarrow> byte list \<Rightarrow> nat \<Rightarrow> fault + byte list" where
  "memcpy dst off src n =
     (if n \<le> length src \<and> off + n \<le> length dst
      then Inr (take off dst @ take n src @ drop (off + n) dst)
      else Inl OutOfBounds)"

definition memset :: "byte list \<Rightarrow> nat \<Rightarrow> byte \<Rightarrow> nat \<Rightarrow> fault + byte list" where
  "memset dst off v n =
     (if off + n \<le> length dst
      then Inr (take off dst @ replicate n v @ drop (off + n) dst)
      else Inl OutOfBounds)"

subsection \<open>One page of the image: \<^verbatim>\<open>struct PELIB_FILE_PAGE\<close>\<close>

record PELIB_FILE_PAGE =
  buffer :: "byte list"
  isInvalidPage :: bool
  isZeroPage :: bool

text \<open>The constructor \<^verbatim>\<open>PELIB_FILE_PAGE()\<close>: an invalid page with an empty buffer.\<close>

definition PELIB_FILE_PAGE_new :: PELIB_FILE_PAGE where
  "PELIB_FILE_PAGE_new = \<lparr>buffer = [], isInvalidPage = True, isZeroPage = False\<rparr>"

text \<open>
  \<^verbatim>\<open>writeToPage(data, offset, length)\<close>: nothing happens when \<open>offset\<close> is not inside the
  page. Otherwise the buffer is resized to the page size unless it has that size, the
  length is cut when \<^verbatim>\<open>offset + length\<close> (a \<^verbatim>\<open>size_t\<close> sum) exceeds the page size, and
  the bytes are copied. The flags are not touched.
\<close>

definition writeToPage ::
  "PELIB_FILE_PAGE \<Rightarrow> byte list \<Rightarrow> nat \<Rightarrow> nat \<Rightarrow> fault + PELIB_FILE_PAGE" where
  "writeToPage page data offset len =
     (if offset < PELIB_PAGE_SIZE then
        let buf = (if length (buffer page) \<noteq> PELIB_PAGE_SIZE
                   then vector_resize (buffer page) PELIB_PAGE_SIZE else buffer page);
            len' = (if (offset + len) mod 2 ^ 64 > PELIB_PAGE_SIZE
                    then PELIB_PAGE_SIZE - offset else len)
        in (case memcpy buf offset data len' of
              Inl e \<Rightarrow> Inl e
            | Inr buf' \<Rightarrow> Inr (page\<lparr>buffer := buf'\<rparr>))
      else Inr page)"

text \<open>
  \<^verbatim>\<open>setValidPage(data, length)\<close>: writes the data at offset 0, fills the rest of the
  page with zero bytes (the count \<^verbatim>\<open>PELIB_PAGE_SIZE - length\<close> is a \<^verbatim>\<open>size_t\<close>
  difference) and clears both flags. The source returns \<^verbatim>\<open>true\<close> in every case; the
  model returns the page.
\<close>

definition setValidPage ::
  "PELIB_FILE_PAGE \<Rightarrow> byte list \<Rightarrow> nat \<Rightarrow> fault + PELIB_FILE_PAGE" where
  "setValidPage page data len =
     (case writeToPage page data 0 len of
        Inl e \<Rightarrow> Inl e
      | Inr page' \<Rightarrow>
          (case memset (buffer page') len 0 ((PELIB_PAGE_SIZE + 2 ^ 64 - len) mod 2 ^ 64) of
             Inl e \<Rightarrow> Inl e
           | Inr buf \<Rightarrow> Inr (page'\<lparr>buffer := buf, isInvalidPage := False, isZeroPage := False\<rparr>)))"

text \<open>\<^verbatim>\<open>setZeroPage()\<close>: drops the buffer and marks the page as a zero page.\<close>

definition setZeroPage :: "PELIB_FILE_PAGE \<Rightarrow> PELIB_FILE_PAGE" where
  "setZeroPage page = page\<lparr>buffer := [], isInvalidPage := False, isZeroPage := True\<rparr>"

text \<open>
  The operations a caller can apply to a page after its construction, and a run of them
  on one page. A run stops at the first fault.
\<close>

datatype page_op =
    SetValidPage "byte list" nat
  | SetZeroPage
  | WriteToPage "byte list" nat nat

fun apply_page_op :: "PELIB_FILE_PAGE \<Rightarrow> page_op \<Rightarrow> fault + PELIB_FILE_PAGE" where
  "apply_page_op page (SetValidPage data len) = setValidPage page data len"
| "apply_page_op page SetZeroPage = Inr (setZeroPage page)"
| "apply_page_op page (WriteToPage data offset len) = writeToPage page data offset len"

fun apply_page_ops :: "PELIB_FILE_PAGE \<Rightarrow> page_op list \<Rightarrow> fault + PELIB_FILE_PAGE" where
  "apply_page_ops page [] = Inr page"
| "apply_page_ops page (op # ops) =
     (case apply_page_op page op of
        Inl e \<Rightarrow> Inl e
      | Inr page' \<Rightarrow> apply_page_ops page' ops)"

text \<open>
  The invariant of a page: the two flags are not set together, and a page with both
  flags cleared has a buffer of the page size.
\<close>

definition page_inv :: "PELIB_FILE_PAGE \<Rightarrow> bool" where
  "page_inv page \<longleftrightarrow>
     \<not> (isZeroPage page \<and> isInvalidPage page)
     \<and> (\<not> isZeroPage page \<and> \<not> isInvalidPage page \<longrightarrow> length (buffer page) = PELIB_PAGE_SIZE)"

subsection \<open>The optional header and the getters of \<^verbatim>\<open>class ImageLoader\<close>\<close>

text \<open>
  Modelled from the spec: the types \<^verbatim>\<open>PELIB_IMAGE_DATA_DIRECTORY\<close> and
  \<^verbatim>\<open>PELIB_IMAGE_OPTIONAL_HEADER\<close> are declared in PeLibAux.h, which is not among the
  sources. The records hold the fields that the getters below read: a data directory is
  a pair of an RVA and a size, and the optional header holds the image base, the size of
  the image, the number of data directories and the table of data directories. The
  capacity of that table is the length of the list.
\<close>

record PELIB_IMAGE_DATA_DIRECTORY =
  VirtualAddress :: "32 word"
  Size :: "32 word"

record PELIB_IMAGE_OPTIONAL_HEADER =
  ImageBase :: "64 word"
  SizeOfImage :: "32 word"
  NumberOfRvaAndSizes :: "32 word"
  DataDirectory :: "PELIB_IMAGE_DATA_DIRECTORY list"

text \<open>
  \<^verbatim>\<open>AlignToSize\<close> and \<^verbatim>\<open>BytesToPages\<close> compute on \<^verbatim>\<open>std::uint32_t\<close>; in
  \<^verbatim>\<open>BytesToPages\<close> the comparison yields 0 or 1, which is added to the quotient.
\<close>

definition AlignToSize :: "32 word \<Rightarrow> 32 word \<Rightarrow> 32 word" where
  "AlignToSize ByteSize AlignSize = (ByteSize + (AlignSize - 1)) AND NOT (AlignSize - 1)"

definition BytesToPages :: "32 word \<Rightarrow> 32 word" where
  "BytesToPages ByteSize =
     drop_bit PELIB_PAGE_SIZE_SHIFT ByteSize
       + (if ByteSize AND (word_of_nat PELIB_PAGE_SIZE - 1) \<noteq> 0 then 1 else 0)"

definition getSizeOfImage :: "PELIB_IMAGE_OPTIONAL_HEADER \<Rightarrow> 32 word" where
  "getSizeOfImage optionalHeader = SizeOfImage optionalHeader"

definition getSizeOfImageAligned :: "PELIB_IMAGE_OPTIONAL_HEADER \<Rightarrow> 32 word" where
  "getSizeOfImageAligned optionalHeader =
     AlignToSize (SizeOfImage optionalHeader) (word_of_nat PELIB_PAGE_SIZE)"

text \<open>
  \<^verbatim>\<open>getDataDirRva\<close> and \<^verbatim>\<open>getDataDirSize\<close> take a \<^verbatim>\<open>size_t\<close> index. The guard compares
  it with \<^verbatim>\<open>NumberOfRvaAndSizes\<close>; the table is indexed only when the guard holds. An
  index that passes the guard and lies beyond the table is an access outside the array.
\<close>

definition getDataDirRva :: "PELIB_IMAGE_OPTIONAL_HEADER \<Rightarrow> nat \<Rightarrow> fault + 32 word" where
  "getDataDirRva optionalHeader dataDirIndex =
     (if unat (NumberOfRvaAndSizes optionalHeader) > dataDirIndex
      then (if dataDirIndex < length (DataDirectory optionalHeader)
            then Inr (VirtualAddress (DataDirectory optionalHeader ! dataDirIndex))
            else Inl OutOfBounds)
      else Inr 0)"

definition getDataDirSize :: "PELIB_IMAGE_OPTIONAL_HEADER \<Rightarrow> nat \<Rightarrow> fault + 32 word" where
  "getDataDirSize optionalHeader dataDirIndex =
     (if unat (NumberOfRvaAndSizes optionalHeader) > dataDirIndex
      then (if dataDirIndex < length (DataDirectory optionalHeader)
            then Inr (Size (DataDirectory optionalHeader ! dataDirIndex))
            else Inl OutOfBounds)
      else Inr 0)"

section \<open>Parts of the loader whose bodies are in ImageLoader.cpp\<close>

text \<open>
  ImageLoader.h declares the members below; their bodies are in ImageLoader.cpp, which
  is not among the sources. Each definition of this section follows the words of the
  specification.
\<close>

subsection \<open>The loader error\<close>

text \<open>
  Modelled from the spec: \<^verbatim>\<open>enum LoaderError\<close> is declared in PeLibAux.h, which is not
  among the sources. The constructors are the success value and the causes that the
  error taxonomy of the specification lists.
\<close>

datatype LoaderError =
    LDR_ERROR_NONE
  | LDR_ERROR_MALFORMED_DOS_HEADER
  | LDR_ERROR_MALFORMED_NT_HEADER
  | LDR_ERROR_UNSUPPORTED_MACHINE_TYPE
  | LDR_ERROR_SECTION_TABLE_INCONSISTENCY
  | LDR_ERROR_LOADABILITY_VIOLATION
  | LDR_ERROR_RELOCATION_MALFORMED
  | LDR_ERROR_RELOCATION_UNSUPPORTED_TYPE

text \<open>
  The members of \<^verbatim>\<open>class ImageLoader\<close> that the functions of this theory read or
  write: the pages of the virtual image, the optional header and the loader error.
\<close>

record ImageLoader =
  pages :: "PELIB_FILE_PAGE list"
  optionalHeader :: PELIB_IMAGE_OPTIONAL_HEADER
  ldrError :: LoaderError

text \<open>
  Modelled from the spec: the bodies of \<^verbatim>\<open>setLoaderError\<close> and \<^verbatim>\<open>loaderError\<close> are
  missing. The specification describes a sticky first-failure indicator: once set to a
  non-success value it is never overwritten; it is read via an accessor and set via a
  setter whose later calls are no-ops. The class has no member besides \<^verbatim>\<open>ldrError\<close>
  that could remember an earlier call, so the setter stores its argument exactly when
  the stored value is the success value. The status that the setter returns is not
  described and is left out.
\<close>

definition setLoaderError :: "ImageLoader \<Rightarrow> LoaderError \<Rightarrow> ImageLoader" where
  "setLoaderError il ldrErr =
     (if ldrError il = LDR_ERROR_NONE then il\<lparr>ldrError := ldrErr\<rparr> else il)"

definition loaderError :: "ImageLoader \<Rightarrow> LoaderError" where
  "loaderError il = ldrError il"

subsection \<open>Reading the virtual image\<close>

text \<open>
  Modelled from the spec: the bodies of \<^verbatim>\<open>readFromPage\<close>, \<^verbatim>\<open>readWriteImage\<close> and
  \<^verbatim>\<open>readImage\<close> are missing. The specification says: reading an invalid or a zero
  page yields zero bytes without requiring a backing buffer; an operation takes an RVA
  and a length, may span several pages and returns the bytes actually transferred,
  fewer than requested near the end of the image and never past it; the page index is
  \<^verbatim>\<open>rva >> 12\<close> and the offset in the page is \<^verbatim>\<open>rva & 0xFFF\<close>; an operation that crosses
  a page boundary is split and dispatched page by page; all RVA arithmetic is checked
  against the bounds before any memory access.

  \<open>readImage\<close> returns the bytes it stores into the caller's buffer; the number that the
  source returns is the length of that list. The end of the range is computed without
  wrap-around and cut at \<^verbatim>\<open>getSizeOfImageAligned()\<close>. Indexing the vector of pages
  outside its size is a fault.
\<close>

definition readFromPage :: "PELIB_FILE_PAGE \<Rightarrow> nat \<Rightarrow> nat \<Rightarrow> fault + byte list" where
  "readFromPage page offsetInPage bytesInPage =
     (if isInvalidPage page \<or> isZeroPage page then Inr (replicate bytesInPage 0)
      else if offsetInPage + bytesInPage \<le> length (buffer page)
      then Inr (take bytesInPage (drop offsetInPage (buffer page)))
      else Inl OutOfBounds)"

function readImagePages :: "PELIB_FILE_PAGE list \<Rightarrow> nat \<Rightarrow> nat \<Rightarrow> fault + byte list" where
  "readImagePages pgs rva rvaEnd =
     (if rva < rvaEnd then
        let pageIndex = drop_bit PELIB_PAGE_SIZE_SHIFT rva;
            offsetInPage = take_bit PELIB_PAGE_SIZE_SHIFT rva;
            bytesInPage = min (PELIB_PAGE_SIZE - offsetInPage) (rvaEnd - rva)
        in if pageIndex < length pgs then
             (case readFromPage (pgs ! pageIndex) offsetInPage bytesInPage of
                Inl e \<Rightarrow> Inl e
              | Inr bytes \<Rightarrow>
                  (case readImagePages pgs (rva + bytesInPage) rvaEnd of
                     Inl e \<Rightarrow> Inl e
                   | Inr rest \<Rightarrow> Inr (bytes @ rest)))
           else Inl OutOfBounds
      else Inr [])"
  by pat_completeness auto

termination
proof (relation "measure (\<lambda>(pgs, rva, rvaEnd). rvaEnd - rva)")
  show "wf (measure (\<lambda>(pgs, rva, rvaEnd). rvaEnd - rva))" by simp
next
  fix pgs :: "PELIB_FILE_PAGE list" and rva rvaEnd pageIndex offsetInPage bytesInPage :: nat
  assume lt: "rva < rvaEnd"
    and off: "offsetInPage = take_bit PELIB_PAGE_SIZE_SHIFT rva"
    and cnt: "bytesInPage = min (PELIB_PAGE_SIZE - offsetInPage) (rvaEnd - rva)"
  have "take_bit PELIB_PAGE_SIZE_SHIFT rva < 2 ^ PELIB_PAGE_SIZE_SHIFT"
    by (rule take_bit_nat_less_exp)
  with off have "offsetInPage < PELIB_PAGE_SIZE"
    by (simp add: PELIB_PAGE_SIZE_def PELIB_PAGE_SIZE_SHIFT_def)
  with lt cnt have "0 < bytesInPage" by simp
  with lt show "((pgs, rva + bytesInPage, rvaEnd), (pgs, rva, rvaEnd))
      \<in> measure (\<lambda>(pgs, rva, rvaEnd). rvaEnd - rva)"
    by simp
qed

declare readImagePages.simps [simp del]

definition readImage :: "ImageLoader \<Rightarrow> 32 word \<Rightarrow> 32 word \<Rightarrow> fault + byte list" where
  "readImage il rva bytesToRead =
     (let rvaEnd = min (unat rva + unat bytesToRead)
                       (unat (getSizeOfImageAligned (optionalHeader il)))
      in readImagePages (pages il) (unat rva) rvaEnd)"

section \<open>Properties of the code in ImageLoader.h\<close>

subsection \<open>Alignment of the image size\<close>

lemma div_page_round_up:
  "((n::nat) + 4095) div 4096 = n div 4096 + (if n mod 4096 = 0 then 0 else 1)"
proof -
  define q where "q = n div 4096"
  define r where "r = n mod 4096"
  have n: "n = q * 4096 + r" by (simp add: q_def r_def)
  have r: "r < 4096" by (simp add: r_def)
  show ?thesis
  proof (cases "r = 0")
    case True
    then have "(n + 4095) div 4096 = q" by (simp add: n)
    with True show ?thesis by (simp flip: q_def r_def)
  next
    case False
    then have "n + 4095 = (r - 1) + (q + 1) * 4096" by (simp add: n)
    then have "(n + 4095) div 4096 = (r - 1) div 4096 + (q + 1)" by (simp only: div_mult_self1)
    with r False show ?thesis by (simp flip: q_def r_def)
  qed
qed

lemma and_not_page_mask: "(w::32 word) AND NOT 0xFFF = push_bit 12 (drop_bit 12 w)"
proof -
  have "(0xFFF::32 word) = mask 12" by (simp add: mask_eq_exp_minus_1)
  then show ?thesis
    by (simp add: bit_eq_iff bit_simps) (auto simp: bit_simps)
qed

lemma unat_and_not_page_mask: "unat ((w::32 word) AND NOT 0xFFF) = unat w div 4096 * 4096"
proof -
  have lt: "unat w < 4294967296" using unsigned_less [of w, where ?'a = nat] by simp
  have "unat w div 4096 * 4096 \<le> unat w" by simp
  with lt have b: "unat w div 4096 * 4096 < 4294967296" by linarith
  have "unat (w AND NOT 0xFFF) = unat (push_bit 12 (drop_bit 12 w))"
    by (simp only: and_not_page_mask)
  also have "\<dots> = unat w div 4096 * 4096"
    using b by (simp add: push_bit_eq_mult drop_bit_eq_div unat_word_ariths unat_div)
  finally show ?thesis .
qed

lemma unat_getSizeOfImageAligned:
  "unat (getSizeOfImageAligned oh)
     = ((unat (SizeOfImage oh) + 4095) mod 2 ^ 32) div 4096 * 4096"
proof -
  have "getSizeOfImageAligned oh = (SizeOfImage oh + 0xFFF) AND NOT 0xFFF"
    by (simp add: getSizeOfImageAligned_def AlignToSize_def PELIB_PAGE_SIZE_def)
  then show ?thesis
    by (simp only: unat_and_not_page_mask) (simp add: unat_word_ariths)
qed

text \<open>
  Claim C9. \<^verbatim>\<open>getSizeOfImageAligned\<close> rounds in 32-bit arithmetic: its value is the sum
  \<open>SizeOfImage + 4095\<close> reduced modulo \<open>2 ^ 32\<close> and then rounded down to a multiple of
  4096. For every \<open>SizeOfImage\<close> above \<open>0xFFFFF000\<close> the sum wraps and the result is 0,
  which is below \<open>SizeOfImage\<close>.
\<close>

theorem getSizeOfImageAligned_wraps:
  "unat (getSizeOfImageAligned oh)
     = ((unat (SizeOfImage oh) + 4095) mod 2 ^ 32) div 4096 * 4096
   \<and> (0xFFFFF000 < SizeOfImage oh \<longrightarrow>
        getSizeOfImageAligned oh = 0 \<and> getSizeOfImageAligned oh < SizeOfImage oh)"
proof -
  have "getSizeOfImageAligned oh = 0 \<and> getSizeOfImageAligned oh < SizeOfImage oh"
    if h: "0xFFFFF000 < SizeOfImage oh"
  proof -
    from h have gt: "4294963200 < unat (SizeOfImage oh)" by (simp add: word_less_nat_alt)
    have lt: "unat (SizeOfImage oh) < 4294967296"
      using unsigned_less [of "SizeOfImage oh", where ?'a = nat] by simp
    have "(unat (SizeOfImage oh) + 4095) mod 4294967296
            = (unat (SizeOfImage oh) + 4095 - 4294967296) mod 4294967296"
      using gt by (simp add: le_mod_geq)
    also have "\<dots> = unat (SizeOfImage oh) + 4095 - 4294967296" using lt by simp
    finally have "(unat (SizeOfImage oh) + 4095) mod 4294967296 < 4096" using lt by simp
    then have "unat (getSizeOfImageAligned oh) = 0"
      by (simp add: unat_getSizeOfImageAligned)
    then have z: "getSizeOfImageAligned oh = 0" by (simp add: unat_eq_0)
    from gt have "SizeOfImage oh \<noteq> 0" by auto
    with z show ?thesis by (simp add: word_neq_0_conv)
  qed
  with unat_getSizeOfImageAligned [of oh] show ?thesis by blast
qed

theorem getSizeOfImageAligned_wraps_witness:
  "(0xFFFFF000 :: 32 word) < SizeOfImage \<lparr>ImageBase = 0x400000, SizeOfImage = 0xFFFFF001,
        NumberOfRvaAndSizes = 16, DataDirectory = []\<rparr>
   \<and> getSizeOfImageAligned \<lparr>ImageBase = 0x400000, SizeOfImage = 0xFFFFF001,
        NumberOfRvaAndSizes = 16, DataDirectory = []\<rparr> = 0"
  using getSizeOfImageAligned_wraps [of "\<lparr>ImageBase = 0x400000, SizeOfImage = 0xFFFFF001,
        NumberOfRvaAndSizes = 16, DataDirectory = []\<rparr>"]
  by simp

lemma unat_BytesToPages:
  "unat (BytesToPages w) = (unat w + 4095) div 4096"
proof -
  have lt: "unat w < 4294967296" using unsigned_less [of w, where ?'a = nat] by simp
  have m: "(0xFFF::32 word) = mask 12" by (simp add: mask_eq_exp_minus_1)
  have a: "unat (w AND 0xFFF) = unat w mod 4096"
    by (simp only: m) (simp add: unat_mod take_bit_eq_mod flip: take_bit_eq_mask)
  have d: "unat (drop_bit 12 w) = unat w div 4096"
    by (simp add: drop_bit_eq_div unat_div)
  have z: "w AND 0xFFF = 0 \<longleftrightarrow> unat w mod 4096 = 0"
    by (simp only: a flip: unat_eq_0)
  from lt have dl: "unat w div 4096 < 1048576" by simp
  show ?thesis
  proof (cases "unat w mod 4096 = 0")
    case True
    then have "w AND 0xFFF = 0" by (simp only: z)
    then have "unat (BytesToPages w) = unat w div 4096"
      by (simp add: BytesToPages_def PELIB_PAGE_SIZE_def PELIB_PAGE_SIZE_SHIFT_def d)
    with True show ?thesis by (simp add: div_page_round_up)
  next
    case False
    then have "w AND 0xFFF \<noteq> 0" by (simp only: z not_False_eq_True)
    then have "unat (BytesToPages w) = (unat w div 4096 + 1) mod 4294967296"
      by (simp add: BytesToPages_def PELIB_PAGE_SIZE_def PELIB_PAGE_SIZE_SHIFT_def d
          unat_word_ariths)
    also from dl have "\<dots> = unat w div 4096 + 1" by simp
    finally show ?thesis using False by (simp add: div_page_round_up)
  qed
qed

text \<open>
  The number of pages that \<^verbatim>\<open>BytesToPages\<close> computes for the aligned size of the image
  is that size divided by the page size; the division is exact.
\<close>

lemma BytesToPages_getSizeOfImageAligned:
  "unat (BytesToPages (getSizeOfImageAligned oh)) = unat (getSizeOfImageAligned oh) div 4096
   \<and> unat (getSizeOfImageAligned oh) mod 4096 = 0"
proof -
  have "unat (getSizeOfImageAligned oh) mod 4096 = 0"
    by (simp add: unat_getSizeOfImageAligned)
  then show ?thesis by (simp add: unat_BytesToPages div_page_round_up)
qed

subsection \<open>The data directories\<close>



text \<open>
  The guard looks at \<^verbatim>\<open>NumberOfRvaAndSizes\<close> only: an index below it that lies beyond
  the table is read outside the array.
\<close>

lemma getDataDir_beyond_table:
  "i < unat (NumberOfRvaAndSizes oh) \<Longrightarrow> length (DataDirectory oh) \<le> i \<Longrightarrow>
   getDataDirRva oh i = Inl OutOfBounds \<and> getDataDirSize oh i = Inl OutOfBounds"
  by (simp add: getDataDirRva_def getDataDirSize_def)


subsection \<open>The states of a page\<close>

lemma length_vector_resize: "length (vector_resize xs n) = n"
  by (simp add: vector_resize_def)

lemma length_memcpy: "memcpy dst off src n = Inr dst' \<Longrightarrow> length dst' = length dst"
  by (auto simp: memcpy_def split: if_splits)

lemma length_memset: "memset dst off v n = Inr dst' \<Longrightarrow> length dst' = length dst"
  by (auto simp: memset_def split: if_splits)

lemma writeToPage_flags:
  "writeToPage page data offset len = Inr page' \<Longrightarrow>
   isZeroPage page' = isZeroPage page \<and> isInvalidPage page' = isInvalidPage page"
  by (auto simp: writeToPage_def Let_def split: if_splits sum.splits)

lemma writeToPage_length:
  "writeToPage page data offset len = Inr page' \<Longrightarrow>
   length (buffer page')
     = (if offset < PELIB_PAGE_SIZE then PELIB_PAGE_SIZE else length (buffer page))"
  by (auto simp: writeToPage_def Let_def length_vector_resize split: if_splits sum.splits
      dest!: length_memcpy)

lemma setValidPage_result:
  "setValidPage page data len = Inr page' \<Longrightarrow>
   \<not> isZeroPage page' \<and> \<not> isInvalidPage page' \<and> length (buffer page') = PELIB_PAGE_SIZE"
  by (auto simp: setValidPage_def PELIB_PAGE_SIZE_def split: sum.splits
      dest!: writeToPage_length length_memset)

lemma page_inv_new: "page_inv PELIB_FILE_PAGE_new"
  by (simp add: page_inv_def PELIB_FILE_PAGE_new_def)

lemma apply_page_op_inv:
  "page_inv page \<Longrightarrow> apply_page_op page op = Inr page' \<Longrightarrow> page_inv page'"
proof (cases op)
  case (SetValidPage data len)
  assume "apply_page_op page op = Inr page'"
  with SetValidPage show ?thesis
    by (auto simp: page_inv_def dest: setValidPage_result)
next
  case SetZeroPage
  assume "apply_page_op page op = Inr page'"
  with SetZeroPage show ?thesis
    by (auto simp: page_inv_def setZeroPage_def)
next
  case (WriteToPage data offset len)
  assume inv: "page_inv page" and "apply_page_op page op = Inr page'"
  with WriteToPage have w: "writeToPage page data offset len = Inr page'" by simp
  from writeToPage_flags [OF w] writeToPage_length [OF w] inv show ?thesis
    by (auto simp: page_inv_def split: if_splits)
qed

lemma apply_page_ops_inv:
  "page_inv page \<Longrightarrow> apply_page_ops page ops = Inr page' \<Longrightarrow> page_inv page'"
proof (induction ops arbitrary: page)
  case Nil
  then show ?case by simp
next
  case (Cons op ops)
  then show ?case
    by (auto split: sum.splits dest: apply_page_op_inv)
qed

text \<open>
  Claim C3. After the construction of a page and any run of \<^verbatim>\<open>setValidPage\<close>,
  \<^verbatim>\<open>setZeroPage\<close> and \<^verbatim>\<open>writeToPage\<close> on it, \<^verbatim>\<open>isZeroPage\<close> and \<^verbatim>\<open>isInvalidPage\<close> are
  not both true, and when both are false the buffer is exactly \<^verbatim>\<open>PELIB_PAGE_SIZE\<close>
  (4096) bytes long.
\<close>

theorem page_flags_and_buffer:
  "apply_page_ops PELIB_FILE_PAGE_new ops = Inr page \<Longrightarrow>
   \<not> (isZeroPage page \<and> isInvalidPage page)
   \<and> (\<not> isZeroPage page \<and> \<not> isInvalidPage page \<longrightarrow> length (buffer page) = 4096)"
  using apply_page_ops_inv [OF page_inv_new, of ops page]
  by (simp add: page_inv_def PELIB_PAGE_SIZE_def)

theorem page_flags_and_buffer_witness:
  "\<exists>page. apply_page_ops PELIB_FILE_PAGE_new
             [SetZeroPage, SetValidPage [1, 2, 3] 3, WriteToPage [9] 4095 7] = Inr page
     \<and> \<not> isZeroPage page \<and> \<not> isInvalidPage page \<and> length (buffer page) = 4096"
proof -
  have "\<exists>page. apply_page_ops PELIB_FILE_PAGE_new
             [SetZeroPage, SetValidPage [1, 2, 3] 3, WriteToPage [9] 4095 7] = Inr page
     \<and> \<not> isZeroPage page \<and> \<not> isInvalidPage page"
    by (simp add: PELIB_FILE_PAGE_new_def setZeroPage_def setValidPage_def writeToPage_def
        memcpy_def memset_def vector_resize_def PELIB_PAGE_SIZE_def Let_def)
  then obtain page where run: "apply_page_ops PELIB_FILE_PAGE_new
             [SetZeroPage, SetValidPage [1, 2, 3] 3, WriteToPage [9] 4095 7] = Inr page"
    and flags: "\<not> isZeroPage page" "\<not> isInvalidPage page"
    by blast
  from page_flags_and_buffer [OF run] flags have "length (buffer page) = 4096" by simp
  with run flags show ?thesis by blast
qed

lemma size_t_page_rest:
  "len \<le> PELIB_PAGE_SIZE \<Longrightarrow>
   (PELIB_PAGE_SIZE + 2 ^ 64 - len) mod 2 ^ 64 = PELIB_PAGE_SIZE - len"
proof -
  assume le: "len \<le> PELIB_PAGE_SIZE"
  then have eq: "PELIB_PAGE_SIZE + 2 ^ 64 - len = (PELIB_PAGE_SIZE - len) + 2 ^ 64"
    by simp
  have lt: "PELIB_PAGE_SIZE - len < 2 ^ 64"
    by (rule le_less_trans [of _ 4096]) (simp_all add: PELIB_PAGE_SIZE_def)
  have "(PELIB_PAGE_SIZE + 2 ^ 64 - len) mod 2 ^ 64
          = ((PELIB_PAGE_SIZE - len) + 2 ^ 64) mod 2 ^ 64"
    by (simp only: eq)
  also have "\<dots> = (PELIB_PAGE_SIZE - len) mod 2 ^ 64" by (rule mod_add_self2)
  also have "\<dots> = PELIB_PAGE_SIZE - len" using lt by (rule mod_less)
  finally show ?thesis .
qed

lemma writeToPage_start:
  assumes "len \<le> length data" and "len \<le> PELIB_PAGE_SIZE"
  shows "\<exists>rest. length rest = PELIB_PAGE_SIZE - len
           \<and> writeToPage page data 0 len = Inr (page\<lparr>buffer := take len data @ rest\<rparr>)"
proof -
  define buf where "buf = (if length (buffer page) \<noteq> PELIB_PAGE_SIZE
                   then vector_resize (buffer page) PELIB_PAGE_SIZE else buffer page)"
  have lb: "length buf = PELIB_PAGE_SIZE" by (simp add: buf_def length_vector_resize)
  have "len < 2 ^ 64"
    by (rule le_less_trans [OF assms(2)]) (simp add: PELIB_PAGE_SIZE_def)
  then have "(0 + len) mod 2 ^ 64 = len" by simp
  with assms(2) have cut: "\<not> (0 + len) mod 2 ^ 64 > PELIB_PAGE_SIZE" by simp
  have cp: "memcpy buf 0 data len = Inr (take len data @ drop len buf)"
    using assms by (simp add: memcpy_def lb)
  have pos: "0 < PELIB_PAGE_SIZE" by (simp add: PELIB_PAGE_SIZE_def)
  have "writeToPage page data 0 len = Inr (page\<lparr>buffer := take len data @ drop len buf\<rparr>)"
    unfolding writeToPage_def Let_def if_P [OF pos] if_not_P [OF cut] buf_def [symmetric] cp
    by simp
  moreover have "length (drop len buf) = PELIB_PAGE_SIZE - len" by (simp add: lb)
  ultimately show ?thesis by blast
qed

text \<open>
  \<^verbatim>\<open>setValidPage\<close> with at most a page of data keeps the data at the start of the
  buffer and pads the rest of the page with zero bytes.
\<close>

lemma setValidPage_buffer:
  assumes "len \<le> length data" and "len \<le> PELIB_PAGE_SIZE"
  shows "setValidPage page data len
     = Inr (page\<lparr>buffer := take len data @ replicate (PELIB_PAGE_SIZE - len) 0,
            isInvalidPage := False, isZeroPage := False\<rparr>)"
proof -
  from writeToPage_start [OF assms] obtain rest where
    r: "length rest = PELIB_PAGE_SIZE - len"
    and w: "writeToPage page data 0 len = Inr (page\<lparr>buffer := take len data @ rest\<rparr>)"
    by blast
  have ms: "memset (take len data @ rest) len 0 (PELIB_PAGE_SIZE - len)
          = Inr (take len data @ replicate (PELIB_PAGE_SIZE - len) 0)"
    using assms r by (simp add: memset_def)
  have b: "buffer (page\<lparr>buffer := take len data @ rest\<rparr>) = take len data @ rest"
    by simp
  show ?thesis
    unfolding setValidPage_def w sum.case b size_t_page_rest [OF assms(2)] ms
    by simp
qed

section \<open>Properties of the parts modelled from the specification\<close>

subsection \<open>The sticky loader error\<close>

lemma setLoaderError_sticky:
  "ldrError il \<noteq> LDR_ERROR_NONE \<Longrightarrow> setLoaderError il e = il"
  by (simp add: setLoaderError_def)

lemma foldl_setLoaderError_sticky:
  "ldrError il \<noteq> LDR_ERROR_NONE \<Longrightarrow> foldl setLoaderError il errs = il"
  by (induction errs) (simp_all add: setLoaderError_sticky)

text \<open>
  Claim C7. Once a non-success value is stored, every later call of \<^verbatim>\<open>setLoaderError\<close>
  leaves the loader unchanged, so \<^verbatim>\<open>loaderError()\<close> keeps returning the stored value
  after any number of calls; and the first non-success value that is set on a loader
  without an error is the one that stays.
\<close>

theorem loaderError_first_wins:
  "(loaderError il \<noteq> LDR_ERROR_NONE \<longrightarrow>
      foldl setLoaderError il errs = il
      \<and> loaderError (foldl setLoaderError il errs) = loaderError il)
   \<and> (loaderError il = LDR_ERROR_NONE \<and> e \<noteq> LDR_ERROR_NONE \<longrightarrow>
        loaderError (foldl setLoaderError (setLoaderError il e) errs) = e)"
proof -
  have "loaderError (foldl setLoaderError (setLoaderError il e) errs) = e"
    if "loaderError il = LDR_ERROR_NONE" and "e \<noteq> LDR_ERROR_NONE"
  proof -
    from that have "ldrError (setLoaderError il e) = e"
      by (simp add: setLoaderError_def loaderError_def)
    with that(2) show ?thesis
      by (simp add: foldl_setLoaderError_sticky loaderError_def)
  qed
  then show ?thesis
    by (auto simp: loaderError_def foldl_setLoaderError_sticky)
qed

theorem loaderError_first_wins_witness:
  "loaderError (foldl setLoaderError
      (setLoaderError \<lparr>pages = [], optionalHeader = \<lparr>ImageBase = 0, SizeOfImage = 0,
          NumberOfRvaAndSizes = 0, DataDirectory = []\<rparr>, ldrError = LDR_ERROR_NONE\<rparr>
        LDR_ERROR_MALFORMED_NT_HEADER)
      [LDR_ERROR_LOADABILITY_VIOLATION, LDR_ERROR_NONE, LDR_ERROR_RELOCATION_MALFORMED])
   = LDR_ERROR_MALFORMED_NT_HEADER"
  using loaderError_first_wins [of "\<lparr>pages = [], optionalHeader = \<lparr>ImageBase = 0,
          SizeOfImage = 0, NumberOfRvaAndSizes = 0, DataDirectory = []\<rparr>,
          ldrError = LDR_ERROR_NONE\<rparr>"
        "[LDR_ERROR_LOADABILITY_VIOLATION, LDR_ERROR_NONE, LDR_ERROR_RELOCATION_MALFORMED]"
        LDR_ERROR_MALFORMED_NT_HEADER]
  by (simp add: loaderError_def)

subsection \<open>Reads outside the image\<close>

lemma readImagePages_empty:
  "\<not> rva < rvaEnd \<Longrightarrow> readImagePages pgs rva rvaEnd = Inr []"
  by (subst readImagePages.simps) simp

text \<open>
  Claim C1. When no address of the range \<open>[rva, rva + bytesToRead)\<close> lies in
  \<open>[0, getSizeOfImageAligned())\<close>, \<^verbatim>\<open>readImage\<close> transfers no byte and does not fault:
  no page is accessed, inside or outside the vector of pages.
\<close>

theorem readImage_outside:
  "{unat rva ..< unat rva + unat bytesToRead}
     \<inter> {0 ..< unat (getSizeOfImageAligned (optionalHeader il))} = {} \<Longrightarrow>
   readImage il rva bytesToRead = Inr []"
proof -
  assume disj: "{unat rva ..< unat rva + unat bytesToRead}
     \<inter> {0 ..< unat (getSizeOfImageAligned (optionalHeader il))} = {}"
  have "\<not> unat rva < min (unat rva + unat bytesToRead)
                          (unat (getSizeOfImageAligned (optionalHeader il)))"
  proof
    assume "unat rva < min (unat rva + unat bytesToRead)
                          (unat (getSizeOfImageAligned (optionalHeader il)))"
    then have "unat rva \<in> {unat rva ..< unat rva + unat bytesToRead}
       \<inter> {0 ..< unat (getSizeOfImageAligned (optionalHeader il))}"
      by simp
    with disj show False by simp
  qed
  then show ?thesis
    unfolding readImage_def Let_def by (rule readImagePages_empty)
qed

theorem readImage_outside_witness:
  "readImage \<lparr>pages = [PELIB_FILE_PAGE_new], optionalHeader = \<lparr>ImageBase = 0x400000,
       SizeOfImage = 0x1000, NumberOfRvaAndSizes = 0, DataDirectory = []\<rparr>,
       ldrError = LDR_ERROR_NONE\<rparr> 0x1000 0x20 = Inr []"
proof -
  have "unat (getSizeOfImageAligned \<lparr>ImageBase = 0x400000,
       SizeOfImage = 0x1000, NumberOfRvaAndSizes = 0, DataDirectory = []\<rparr>) = 4096"
    by (simp add: getSizeOfImageAligned_def AlignToSize_def PELIB_PAGE_SIZE_def)
  then have "{unat (0x1000 :: 32 word) ..< unat (0x1000 :: 32 word) + unat (0x20 :: 32 word)}
     \<inter> {0 ..< unat (getSizeOfImageAligned (optionalHeader \<lparr>pages = [PELIB_FILE_PAGE_new],
       optionalHeader = \<lparr>ImageBase = 0x400000,
       SizeOfImage = 0x1000, NumberOfRvaAndSizes = 0, DataDirectory = []\<rparr>,
       ldrError = LDR_ERROR_NONE\<rparr>))} = {}"
    by simp
  then show ?thesis by (rule readImage_outside)
qed

end
